theory Spec2Isabelle
  imports Main
begin

unbundle bit_operations_syntax

section \<open>GCE instances targets: data model\<close>

text \<open>
  The embedding follows \<^verbatim>\<open>targets/gce/instances.go\<close>. The records of the compute API
  carry only the fields that the file reads. Slices are lists, the cache
  \<^verbatim>\<open>map[string]*compute.Instance\<close> is a partial map, and a Go pointer that may be
  \<^verbatim>\<open>nil\<close> is an \<open>option\<close>. The elements of the compute API's slices and the
  values stored in the cache are taken to be non-nil, as the API client delivers them.
\<close>

record AccessConfig =
  NatIP :: string

record AliasIpRange =
  IpCidrRange :: string

record NetworkInterface =
  NetworkIP :: string
  AccessConfigs :: "AccessConfig list"
  AliasIpRanges :: "AliasIpRange list"

record Instance =
  Name :: string
  NetworkInterfaces :: "NetworkInterface list"

text \<open>
  \<^verbatim>\<open>net.IP\<close> is a byte slice and \<^verbatim>\<open>net.IPNet\<close> a pair of an address and a
  mask; a \<^verbatim>\<open>nil\<close> address is \<open>None\<close> of \<open>IP option\<close>.
\<close>

type_synonym IP = "nat list"

record IPNet =
  IP :: IP
  Mask :: "nat list"

text \<open>
  Errors are values. Each \<^verbatim>\<open>errors.New\<close> and \<^verbatim>\<open>fmt.Errorf\<close> of the file is a
  constructor carrying the arguments of its format string; \<open>ParseError\<close> is the
  \<^verbatim>\<open>*net.ParseError\<close> that \<^verbatim>\<open>net.ParseCIDR\<close> returns, and \<open>ExternalError\<close>
  stands for any error of a collaborator (the compute API, the metadata server, the DNS
  resolver).
\<close>

datatype error =
    ErrMutuallyExclusive
  | ErrGlobalResolverNil
  | ErrCurrentInstanceName error
  | ErrNotInDatabase string
  | ErrNoNetworkInterface string int
  | ErrNoAccessConfig string
  | ErrNoAliasIPRange string
  | ErrUnknownIPType string
  | ParseError string string
  | ExternalError string

text \<open>
  A Go call either returns or panics. The only panics that the file can raise on
  non-nil records are an index out of range and a call through a nil resolver.
\<close>

datatype panic =
    IndexOutOfRange int nat
  | NilPointerDereference

datatype 'a go =
    Returns 'a
  | Panics panic

subsection \<open>The configuration message\<close>

text \<open>
  Modelled from the spec: the generated protocol-buffer code of the \<^verbatim>\<open>Instances\<close>
  configuration message is not part of the source file. Its shape is taken from the
  AddressingRequest of the specification (an optional interface index with default 0,
  an addressing mode PRIVATE (default), PUBLIC or ALIAS, and a flag selecting DNS-based
  resolution) and from the getters that \<^verbatim>\<open>instances.go\<close> calls. A getter on an
  unset field or on a nil message returns the default. The mode is an open enumeration
  in Go, so a fourth constructor stands for any value outside the three named ones.
\<close>

datatype Instances_NetworkInterface_IPType =
    Instances_NetworkInterface_PRIVATE
  | Instances_NetworkInterface_PUBLIC
  | Instances_NetworkInterface_ALIAS
  | Instances_NetworkInterface_unrecognized

record Instances_NetworkInterface =
  Index :: "int option"
  IpType :: "Instances_NetworkInterface_IPType option"

record Instances =
  UseDnsToResolve :: "bool option"
  NetworkInterface :: "Instances_NetworkInterface option"

definition GetIndex :: "Instances_NetworkInterface option \<Rightarrow> int" where
  "GetIndex m = (case m of None \<Rightarrow> 0
     | Some ni \<Rightarrow> (case Index ni of None \<Rightarrow> 0 | Some n \<Rightarrow> n))"

definition GetIpType :: "Instances_NetworkInterface option \<Rightarrow> Instances_NetworkInterface_IPType" where
  "GetIpType m = (case m of None \<Rightarrow> Instances_NetworkInterface_PRIVATE
     | Some ni \<Rightarrow> (case IpType ni of None \<Rightarrow> Instances_NetworkInterface_PRIVATE | Some t \<Rightarrow> t))"

definition GetUseDnsToResolve :: "Instances option \<Rightarrow> bool" where
  "GetUseDnsToResolve m = (case m of None \<Rightarrow> False
     | Some c \<Rightarrow> (case UseDnsToResolve c of None \<Rightarrow> False | Some b \<Rightarrow> b))"

definition GetNetworkInterface :: "Instances option \<Rightarrow> Instances_NetworkInterface option" where
  "GetNetworkInterface m = (case m of None \<Rightarrow> None | Some c \<Rightarrow> NetworkInterface c)"

subsection \<open>The facade and the provider\<close>

text \<open>
  \<open>instances\<close> is the per-caller object: its configuration and the DNS resolver, whose
  \<^verbatim>\<open>Resolve\<close> method is a function of the name and the IP version.
  \<open>instancesProvider\<close> is the process-wide cache; the logger and the mutex have no
  state that the functions below read.
\<close>

type_synonym Resolver = "string \<Rightarrow> int \<Rightarrow> IP option \<times> error option"

record instances =
  pb :: "Instances option"
  r :: "Resolver option"

record instancesProvider =
  project :: string
  thisInstance :: string
  names :: "string list"
  cache :: "string \<rightharpoonup> Instance"

text \<open>The metadata server: whether the process runs on GCE, and the instance name lookup.\<close>

record metadata =
  OnGCE :: bool
  InstanceName :: "error + string"

section \<open>The cache store\<close>

definition get :: "instancesProvider \<Rightarrow> string \<Rightarrow> Instance option" where
  "get ip name = cache ip name"

definition list :: "instancesProvider \<Rightarrow> string list" where
  "list ip = [] @ names ip"

text \<open>
  The loop of \<^verbatim>\<open>expand\<close> over the fetched instances: it writes into the existing
  cache map and appends to a fresh \<^verbatim>\<open>result\<close> slice, skipping this instance.
\<close>

fun expand_loop :: "string \<Rightarrow> Instance list \<Rightarrow> (string \<rightharpoonup> Instance) \<times> string list
    \<Rightarrow> (string \<rightharpoonup> Instance) \<times> string list" where
  "expand_loop this [] (c, result) = (c, result)"
| "expand_loop this (ins # rest) (c, result) =
     (if Name ins = this then expand_loop this rest (c, result)
      else expand_loop this rest (c(Name ins \<mapsto> ins), result @ [Name ins]))"

text \<open>
  \<^verbatim>\<open>expand\<close> takes the outcome of \<^verbatim>\<open>listInstances(ip.project)\<close>, the call to
  the compute API, as its second argument.
\<close>

definition expand :: "instancesProvider \<Rightarrow> error + Instance list \<Rightarrow> instancesProvider" where
  "expand ip listed =
     (case listed of
        Inl err \<Rightarrow> ip
      | Inr computeInstances \<Rightarrow>
          (case expand_loop (thisInstance ip) computeInstances (cache ip, []) of
             (c, result) \<Rightarrow> ip\<lparr>names := result, cache := c\<rparr>))"

text \<open>
  The goroutine started by \<^verbatim>\<open>initGlobalInstancesProvider\<close> calls \<^verbatim>\<open>expand\<close> once
  and then on every tick; a run of refresh cycles is the fold of \<^verbatim>\<open>expand\<close> over
  the outcomes of the successive fetches.
\<close>

definition refresh_cycles :: "instancesProvider \<Rightarrow> (error + Instance list) list \<Rightarrow> instancesProvider" where
  "refresh_cycles ip fetches = foldl expand ip fetches"

section \<open>Construction\<close>

text \<open>
  The global \<^verbatim>\<open>globalInstancesProvider\<close> pointer is passed in and returned. The
  function returns its error (\<open>None\<close> for \<^verbatim>\<open>nil\<close>) and the new value of the global.
\<close>

definition initGlobalInstancesProvider ::
    "metadata \<Rightarrow> string \<Rightarrow> instancesProvider option \<Rightarrow> error option \<times> instancesProvider option" where
  "initGlobalInstancesProvider md proj globalInstancesProvider =
     (case globalInstancesProvider of
        Some p \<Rightarrow> (None, Some p)
      | None \<Rightarrow>
          if OnGCE md then
            (case InstanceName md of
               Inl err \<Rightarrow> (Some (ErrCurrentInstanceName err), None)
             | Inr n \<Rightarrow> (None, Some \<lparr>project = proj, thisInstance = n, names = [], cache = Map.empty\<rparr>))
          else (None, Some \<lparr>project = proj, thisInstance = [], names = [], cache = Map.empty\<rparr>))"

definition newInstances ::
    "metadata \<Rightarrow> string \<Rightarrow> Instances option \<Rightarrow> Resolver option \<Rightarrow> instancesProvider option
      \<Rightarrow> (error + instances) \<times> instancesProvider option" where
  "newInstances md proj ipb globalResolver globalInstancesProvider =
     (if GetNetworkInterface ipb \<noteq> None \<and> GetUseDnsToResolve ipb then
        (Inl ErrMutuallyExclusive, globalInstancesProvider)
      else if GetUseDnsToResolve ipb \<and> Option.is_none globalResolver then
        (Inl ErrGlobalResolverNil, globalInstancesProvider)
      else
        (case initGlobalInstancesProvider md proj globalInstancesProvider of
           (Some err, g) \<Rightarrow> (Inl err, g)
         | (None, g) \<Rightarrow> (Inr \<lparr>pb = ipb, r = globalResolver\<rparr>, g)))"

section \<open>Listing and resolution\<close>

text \<open>
  \<^verbatim>\<open>List\<close> and \<^verbatim>\<open>Resolve\<close> read the global provider, which \<^verbatim>\<open>newInstances\<close>
  has initialised before any \<open>instances\<close> value exists; it is their first argument
  after the parsers.
\<close>

definition List :: "instancesProvider \<Rightarrow> instances \<Rightarrow> string list" where
  "List globalInstancesProvider i = list globalInstancesProvider"

text \<open>
  \<^verbatim>\<open>net.ParseIP\<close> and \<^verbatim>\<open>net.ParseCIDR\<close> belong to Go's standard library, so
  \<open>Resolve\<close> takes them as parameters: \<open>ParseIP\<close> returns \<open>None\<close> for Go's
  \<^verbatim>\<open>nil\<close>, \<open>ParseCIDR\<close> returns either its error or the address and the network.
\<close>

text \<open>
  The local variables \<^verbatim>\<open>niIndex\<close> and \<^verbatim>\<open>ipType\<close> of \<^verbatim>\<open>Resolve\<close>: the
  defaults 0 and PRIVATE, overwritten from the configured network interface when there
  is one.
\<close>

definition niIndex :: "instances \<Rightarrow> int" where
  "niIndex i = (case GetNetworkInterface (pb i) of None \<Rightarrow> 0 | Some ni \<Rightarrow> GetIndex (Some ni))"

definition ipType :: "instances \<Rightarrow> Instances_NetworkInterface_IPType" where
  "ipType i = (case GetNetworkInterface (pb i) of
       None \<Rightarrow> Instances_NetworkInterface_PRIVATE
     | Some ni \<Rightarrow> GetIpType (Some ni))"

text \<open>
  The comparison \<^verbatim>\<open>len(ins.NetworkInterfaces) <= niIndex\<close> is on signed integers, and
  indexing a slice with a negative index panics. A call through a nil resolver panics
  too.
\<close>

definition Resolve ::
    "(string \<Rightarrow> IP option) \<Rightarrow> (string \<Rightarrow> error + IP \<times> IPNet) \<Rightarrow> instancesProvider \<Rightarrow> instances
      \<Rightarrow> string \<Rightarrow> int \<Rightarrow> (IP option \<times> error option) go" where
  "Resolve ParseIP ParseCIDR globalInstancesProvider i name ipVer =
     (if GetUseDnsToResolve (pb i) then
        (case r i of
           None \<Rightarrow> Panics NilPointerDereference
         | Some resolver \<Rightarrow> Returns (resolver name ipVer))
      else
        (case get globalInstancesProvider name of
           None \<Rightarrow> Returns (None, Some (ErrNotInDatabase name))
         | Some ins \<Rightarrow>
             if int (length (NetworkInterfaces ins)) \<le> niIndex i then
               Returns (None, Some (ErrNoNetworkInterface name (niIndex i)))
             else if niIndex i < 0 then
               Panics (IndexOutOfRange (niIndex i) (length (NetworkInterfaces ins)))
             else
               (case NetworkInterfaces ins ! nat (niIndex i) of intf \<Rightarrow>
                  (case ipType i of
                     Instances_NetworkInterface_PRIVATE \<Rightarrow>
                       Returns (ParseIP (NetworkIP intf), None)
                   | Instances_NetworkInterface_PUBLIC \<Rightarrow>
                       (case AccessConfigs intf of
                          [] \<Rightarrow> Returns (None, Some (ErrNoAccessConfig name))
                        | ac # _ \<Rightarrow> Returns (ParseIP (NatIP ac), None))
                   | Instances_NetworkInterface_ALIAS \<Rightarrow>
                       (case AliasIpRanges intf of
                          [] \<Rightarrow> Returns (None, Some (ErrNoAliasIPRange name))
                        | ar # _ \<Rightarrow>
                            (case ParseIP (IpCidrRange ar) of
                               Some ip \<Rightarrow> Returns (Some ip, None)
                             | None \<Rightarrow>
                                 (case ParseCIDR (IpCidrRange ar) of
                                    Inl err \<Rightarrow> Returns (None, Some err)
                                  | Inr (ip, ipnet) \<Rightarrow> Returns (Some ip, None))))
                   | Instances_NetworkInterface_unrecognized \<Rightarrow>
                       Returns (None, Some (ErrUnknownIPType name))))))"

section \<open>Go's address parsers on dotted-decimal IPv4\<close>

text \<open>
  For evaluation on concrete inputs, the IPv4 part of the two standard-library parsers,
  after the documentation of package \<^verbatim>\<open>net\<close>. \<open>ParseIPv4\<close> accepts four
  decimal fields separated by dots, each non-empty, without a leading zero and at most
  255. \<open>ParseCIDRv4\<close> splits at the first slash, parses the address and a prefix
  length of at most 32, and returns the address as written together with the network,
  whose address is the written address masked: \<^verbatim>\<open>ParseCIDR("192.0.2.1/24")\<close> returns
  the IP address 192.0.2.1 and the network 192.0.2.0/24. IPv6 literals are outside this
  fragment. The general theorems below hold for any pair of parsers.
\<close>

definition digit :: "char \<Rightarrow> nat option" where
  "digit c = map_of [(CHR ''0'', 0), (CHR ''1'', 1), (CHR ''2'', 2), (CHR ''3'', 3), (CHR ''4'', 4),
     (CHR ''5'', 5), (CHR ''6'', 6), (CHR ''7'', 7), (CHR ''8'', 8), (CHR ''9'', 9)] c"

fun dtoi :: "string \<Rightarrow> nat \<Rightarrow> nat option" where
  "dtoi [] n = Some n"
| "dtoi (c # cs) n = (case digit c of None \<Rightarrow> None | Some d \<Rightarrow> dtoi cs (n * 10 + d))"

fun fields :: "string \<Rightarrow> string list" where
  "fields [] = [[]]"
| "fields (c # cs) =
     (if c = CHR ''.'' then [] # fields cs
      else (case fields cs of f # fs \<Rightarrow> (c # f) # fs | [] \<Rightarrow> [[c]]))"

definition octet :: "string \<Rightarrow> nat option" where
  "octet f =
     (if f = [] \<or> (1 < length f \<and> hd f = CHR ''0'') then None
      else (case dtoi f 0 of None \<Rightarrow> None | Some n \<Rightarrow> if n \<le> 255 then Some n else None))"

definition ParseIPv4 :: "string \<Rightarrow> IP option" where
  "ParseIPv4 s =
     (case map octet (fields s) of
        [Some a, Some b, Some c, Some d] \<Rightarrow> Some [a, b, c, d]
      | _ \<Rightarrow> None)"

definition CIDRMask :: "nat \<Rightarrow> nat list" where
  "CIDRMask n = map (\<lambda>k. 256 - 2 ^ (8 - min 8 (n - 8 * k))) [0, 1, 2, 3]"

definition Mask_ip :: "IP \<Rightarrow> nat list \<Rightarrow> IP" where
  "Mask_ip ip m = map (\<lambda>(a, b). a AND b) (zip ip m)"

definition ParseCIDRv4 :: "string \<Rightarrow> error + IP \<times> IPNet" where
  "ParseCIDRv4 s =
     (case dropWhile (\<lambda>c. c \<noteq> CHR ''/'') s of
        [] \<Rightarrow> Inl (ParseError ''CIDR address'' s)
      | _ # bits \<Rightarrow>
          (case (ParseIPv4 (takeWhile (\<lambda>c. c \<noteq> CHR ''/'') s),
                 if bits = [] then None else dtoi bits 0) of
             (Some ip, Some n) \<Rightarrow>
               if n \<le> 32 then Inr (ip, \<lparr>IP = Mask_ip ip (CIDRMask n), Mask = CIDRMask n\<rparr>)
               else Inl (ParseError ''CIDR address'' s)
           | _ \<Rightarrow> Inl (ParseError ''CIDR address'' s)))"

section \<open>The ALIAS rule as the specification words it\<close>

text \<open>
  The specification's ALIAS rule on the first alias range's string: the bare address
  when the string parses as one, else the network address of the parsed CIDR, else the
  CIDR parser's error.
\<close>

definition alias_rule_spec ::
    "(string \<Rightarrow> IP option) \<Rightarrow> (string \<Rightarrow> error + IP \<times> IPNet) \<Rightarrow> string \<Rightarrow> IP option \<times> error option" where
  "alias_rule_spec ParseIP ParseCIDR s =
     (case ParseIP s of
        Some ip \<Rightarrow> (Some ip, None)
      | None \<Rightarrow>
          (case ParseCIDR s of
             Inl err \<Rightarrow> (None, Some err)
           | Inr (ip, ipnet) \<Rightarrow> (Some (IP ipnet), None)))"

section \<open>Sample inventory\<close>

definition vm_a :: Instance where
  "vm_a = \<lparr>Name = ''vm-a'', NetworkInterfaces =
     [\<lparr>NetworkIP = ''10.0.0.5'', AccessConfigs = [\<lparr>NatIP = ''34.1.2.3''\<rparr>],
       AliasIpRanges = [\<lparr>IpCidrRange = ''10.1.2.9/24''\<rparr>]\<rparr>]\<rparr>"

definition vm_b :: Instance where
  "vm_b = \<lparr>Name = ''vm-b'', NetworkInterfaces =
     [\<lparr>NetworkIP = ''not-an-address'', AccessConfigs = [],
       AliasIpRanges = [\<lparr>IpCidrRange = ''10.1.2.0/24''\<rparr>]\<rparr>,
      \<lparr>NetworkIP = ''10.0.1.7'', AccessConfigs = [\<lparr>NatIP = []\<rparr>],
       AliasIpRanges = [\<lparr>IpCidrRange = ''10.1.2.9''\<rparr>]\<rparr>]\<rparr>"

definition prober :: Instance where
  "prober = \<lparr>Name = ''prober'', NetworkInterfaces =
     [\<lparr>NetworkIP = ''10.0.0.2'', AccessConfigs = [], AliasIpRanges = []\<rparr>]\<rparr>"

definition on_gce :: metadata where
  "on_gce = \<lparr>OnGCE = True, InstanceName = Inr ''prober''\<rparr>"

definition provider0 :: instancesProvider where
  "provider0 = \<lparr>project = ''proj'', thisInstance = ''prober'', names = [], cache = Map.empty\<rparr>"

definition provider1 :: instancesProvider where
  "provider1 = refresh_cycles provider0 [Inr [vm_a, prober, vm_b]]"

text \<open>
  Two records with two interfaces each: \<open>vm-c\<close> has no access config on interface 0
  and two on interface 1, \<open>vm-d\<close> has one on interface 0 and none on interface 1.
\<close>

definition vm_c :: Instance where
  "vm_c = \<lparr>Name = ''vm-c'', NetworkInterfaces =
     [\<lparr>NetworkIP = ''10.0.2.1'', AccessConfigs = [], AliasIpRanges = []\<rparr>,
      \<lparr>NetworkIP = ''10.0.2.2'',
       AccessConfigs = [\<lparr>NatIP = ''34.1.2.3''\<rparr>, \<lparr>NatIP = ''35.9.8.7''\<rparr>],
       AliasIpRanges = []\<rparr>]\<rparr>"

definition vm_d :: Instance where
  "vm_d = \<lparr>Name = ''vm-d'', NetworkInterfaces =
     [\<lparr>NetworkIP = ''10.0.3.1'', AccessConfigs = [\<lparr>NatIP = ''35.9.8.7''\<rparr>],
       AliasIpRanges = []\<rparr>,
      \<lparr>NetworkIP = ''10.0.3.2'', AccessConfigs = [], AliasIpRanges = []\<rparr>]\<rparr>"

definition provider2 :: instancesProvider where
  "provider2 = refresh_cycles provider0 [Inr [vm_c, prober, vm_d]]"

definition facade :: "bool \<Rightarrow> Instances_NetworkInterface option \<Rightarrow> instances" where
  "facade dns ni = \<lparr>pb = Some \<lparr>UseDnsToResolve = Some dns, NetworkInterface = ni\<rparr>, r = None\<rparr>"

definition netintf :: "int \<Rightarrow> Instances_NetworkInterface_IPType \<Rightarrow> Instances_NetworkInterface option" where
  "netintf n t = Some \<lparr>Index = Some n, IpType = Some t\<rparr>"

section \<open>Facts about the refresh cycle\<close>

lemma expand_loop_names:
  "snd (expand_loop this xs (c, res)) = res @ filter (\<lambda>n. n \<noteq> this) (map Name xs)"
  by (induction xs arbitrary: c res) auto

lemma expand_loop_dom:
  "dom (fst (expand_loop this xs (c, res))) = dom c \<union> set (filter (\<lambda>n. n \<noteq> this) (map Name xs))"
  by (induction xs arbitrary: c res) auto

text \<open>A successful cycle lists the fetched names other than this instance, in order.\<close>

lemma names_expand_Inr:
  "names (expand ip (Inr xs)) = filter (\<lambda>n. n \<noteq> thisInstance ip) (map Name xs)"
  using expand_loop_names [of "thisInstance ip" xs "cache ip" "[]"]
  by (auto simp: expand_def split: prod.splits)

text \<open>A successful cycle adds the listed names to the keys of the cache and removes none.\<close>

lemma dom_cache_expand_Inr:
  "dom (cache (expand ip (Inr xs))) = dom (cache ip) \<union> set (names (expand ip (Inr xs)))"
proof -
  obtain c res where loop: "expand_loop (thisInstance ip) xs (cache ip, []) = (c, res)"
    by (cases "expand_loop (thisInstance ip) xs (cache ip, [])")
  have "dom c = dom (cache ip) \<union> set (filter (\<lambda>n. n \<noteq> thisInstance ip) (map Name xs))"
    using expand_loop_dom [of "thisInstance ip" xs "cache ip" "[]"] loop by simp
  moreover have "res = filter (\<lambda>n. n \<noteq> thisInstance ip) (map Name xs)"
    using expand_loop_names [of "thisInstance ip" xs "cache ip" "[]"] loop by simp
  ultimately show ?thesis
    using loop by (simp add: expand_def)
qed

lemma expand_Inl: "expand ip (Inl err) = ip"
  by (simp add: expand_def)

lemma thisInstance_expand: "thisInstance (expand ip f) = thisInstance ip"
  by (cases f) (simp_all add: expand_def split: prod.splits)

lemma thisInstance_refresh_cycles: "thisInstance (refresh_cycles ip fs) = thisInstance ip"
  unfolding refresh_cycles_def
  by (induction fs arbitrary: ip) (simp_all add: thisInstance_expand)

lemma listed_cached_expand:
  "set (names ip) \<subseteq> dom (cache ip) \<Longrightarrow> set (names (expand ip f)) \<subseteq> dom (cache (expand ip f))"
  by (cases f) (simp_all add: expand_Inl dom_cache_expand_Inr)

lemma listed_cached_refresh_cycles:
  "set (names ip) \<subseteq> dom (cache ip) \<Longrightarrow>
   set (names (refresh_cycles ip fs)) \<subseteq> dom (cache (refresh_cycles ip fs))"
  unfolding refresh_cycles_def
  by (induction fs arbitrary: ip) (simp_all add: listed_cached_expand)

lemma self_unlisted_expand:
  "thisInstance ip \<notin> set (names ip) \<Longrightarrow> thisInstance ip \<notin> set (names (expand ip f))"
  by (cases f) (simp_all add: expand_Inl names_expand_Inr)

lemma self_unlisted_refresh_cycles:
  "thisInstance ip \<notin> set (names ip) \<Longrightarrow> thisInstance ip \<notin> set (names (refresh_cycles ip fs))"
  unfolding refresh_cycles_def
proof (induction fs arbitrary: ip)
  case Nil
  then show ?case by simp
next
  case (Cons f fs)
  have "thisInstance (expand ip f) \<notin> set (names (expand ip f))"
    using Cons.prems by (simp add: self_unlisted_expand thisInstance_expand)
  from Cons.IH [OF this] show ?case by (simp add: thisInstance_expand)
qed

text \<open>No cycle removes a key of the cache.\<close>

lemma dom_cache_expand_mono: "dom (cache ip) \<subseteq> dom (cache (expand ip f))"
  by (cases f) (simp_all add: expand_Inl dom_cache_expand_Inr)

lemma dom_cache_refresh_cycles_mono: "dom (cache ip) \<subseteq> dom (cache (refresh_cycles ip fs))"
  unfolding refresh_cycles_def
proof (induction fs arbitrary: ip)
  case Nil
  then show ?case by simp
next
  case (Cons f fs)
  have "dom (cache ip) \<subseteq> dom (cache (expand ip f))"
    by (rule dom_cache_expand_mono)
  also have "\<dots> \<subseteq> dom (cache (foldl expand (expand ip f) fs))"
    by (rule Cons.IH)
  finally show ?case by simp
qed

lemma refresh_cycles_append:
  "refresh_cycles ip (fs @ gs) = refresh_cycles (refresh_cycles ip fs) gs"
  by (simp add: refresh_cycles_def)

section \<open>Facts about the samples\<close>

lemma ParseIPv4_samples:
  "ParseIPv4 ''10.0.0.5'' = Some [10, 0, 0, 5]"
  "ParseIPv4 ''34.1.2.3'' = Some [34, 1, 2, 3]"
  "ParseIPv4 ''10.1.2.9'' = Some [10, 1, 2, 9]"
  "ParseIPv4 ''10.0.1.7'' = Some [10, 0, 1, 7]"
  "ParseIPv4 ''35.9.8.7'' = Some [35, 9, 8, 7]"
  "ParseIPv4 ''10.1.2.9/24'' = None"
  "ParseIPv4 ''10.1.2.0/24'' = None"
  "ParseIPv4 ''not-an-address'' = None"
  "ParseIPv4 [] = None"
  by code_simp+

lemma ParseCIDRv4_samples:
  "ParseCIDRv4 ''10.1.2.9/24'' = Inr ([10, 1, 2, 9], \<lparr>IP = [10, 1, 2, 0], Mask = [255, 255, 255, 0]\<rparr>)"
  "ParseCIDRv4 ''10.1.2.0/24'' = Inr ([10, 1, 2, 0], \<lparr>IP = [10, 1, 2, 0], Mask = [255, 255, 255, 0]\<rparr>)"
  "ParseCIDRv4 ''not-an-address'' = Inl (ParseError ''CIDR address'' ''not-an-address'')"
  by code_simp+

lemma provider0_initial:
  "initGlobalInstancesProvider on_gce ''proj'' None = (None, Some provider0)"
  by (simp add: initGlobalInstancesProvider_def on_gce_def provider0_def)

lemma provider1_eq:
  "names provider1 = [''vm-a'', ''vm-b'']"
  "get provider1 ''vm-a'' = Some vm_a"
  "get provider1 ''vm-b'' = Some vm_b"
  "get provider1 ''prober'' = None"
  "thisInstance provider1 = ''prober''"
  by (simp_all add: provider1_def provider0_def refresh_cycles_def expand_def get_def
      vm_a_def vm_b_def prober_def)

lemma provider2_eq:
  "get provider2 ''vm-c'' = Some vm_c"
  "get provider2 ''vm-d'' = Some vm_d"
  by (simp_all add: provider2_def provider0_def refresh_cycles_def expand_def get_def
      vm_c_def vm_d_def prober_def)

lemma netintf_config:
  "GetNetworkInterface (pb (facade dns (netintf n t))) = Some \<lparr>Index = Some n, IpType = Some t\<rparr>"
  "GetIndex (Some \<lparr>Index = Some n, IpType = Some t\<rparr>) = n"
  "GetIpType (Some \<lparr>Index = Some n, IpType = Some t\<rparr>) = t"
  by (simp_all add: facade_def netintf_def GetNetworkInterface_def GetIndex_def GetIpType_def)

lemma facade_simps:
  "GetUseDnsToResolve (pb (facade dns ni)) = dns"
  "GetNetworkInterface (pb (facade dns ni)) = ni"
  "niIndex (facade dns None) = 0"
  "ipType (facade dns None) = Instances_NetworkInterface_PRIVATE"
  "niIndex (facade dns (netintf n t)) = n"
  "ipType (facade dns (netintf n t)) = t"
  by (simp_all add: facade_def netintf_def niIndex_def ipType_def GetUseDnsToResolve_def
      GetNetworkInterface_def GetIndex_def GetIpType_def)

section \<open>The cache store and the refresh cycle\<close>

text \<open>
  C1, as amended. In every state that refresh cycles reach from the provider that
  \<^verbatim>\<open>initGlobalInstancesProvider\<close> creates, every name returned by \<^verbatim>\<open>List\<close> is a
  key of the cache that \<^verbatim>\<open>get\<close> reads, so it maps to a record. The converse is left
  out: \<^verbatim>\<open>expand\<close> writes into the existing map and removes nothing, so the map keeps
  the records of earlier cycles: every key of the cache is still a key after any further
  cycles.
\<close>

theorem listed_names_are_cached:
  assumes "initGlobalInstancesProvider md proj None = (None, Some ip)"
  shows "set (List (refresh_cycles ip fetches) i) \<subseteq> dom (cache (refresh_cycles ip fetches)) \<and>
         (\<forall>n \<in> set (List (refresh_cycles ip fetches) i). get (refresh_cycles ip fetches) n \<noteq> None) \<and>
         dom (cache (refresh_cycles ip fetches)) \<subseteq> dom (cache (refresh_cycles ip (fetches @ later)))"
proof -
  have kept: "dom (cache (refresh_cycles ip fetches))
      \<subseteq> dom (cache (refresh_cycles ip (fetches @ later)))"
    by (simp add: refresh_cycles_append dom_cache_refresh_cycles_mono)
  have "names ip = []"
    using assms by (auto simp: initGlobalInstancesProvider_def split: if_splits sum.splits)
  then have "set (names ip) \<subseteq> dom (cache ip)"
    by simp
  then have "set (names (refresh_cycles ip fetches)) \<subseteq> dom (cache (refresh_cycles ip fetches))"
    by (rule listed_cached_refresh_cycles)
  then have "set (List (refresh_cycles ip fetches) i) \<subseteq> dom (cache (refresh_cycles ip fetches))"
    by (simp add: List_def list_def)
  then have "\<forall>n \<in> set (List (refresh_cycles ip fetches) i). get (refresh_cycles ip fetches) n \<noteq> None"
    by (auto simp: get_def)
  with \<open>set (List (refresh_cycles ip fetches) i) \<subseteq> dom (cache (refresh_cycles ip fetches))\<close> kept
  show ?thesis by blast
qed

text \<open>
  Two cycles on the sample inventory, the second without \<open>vm-a\<close>: the listed names
  are keys after both, and the keys after the first cycle are keys after the second.
\<close>

theorem listed_names_are_cached_witness:
  "initGlobalInstancesProvider on_gce ''proj'' None = (None, Some provider0) \<and>
   set (List (refresh_cycles provider0 [Inr [vm_a, prober, vm_b], Inr [vm_b]]) (facade False None))
     \<subseteq> dom (cache (refresh_cycles provider0 [Inr [vm_a, prober, vm_b], Inr [vm_b]])) \<and>
   dom (cache (refresh_cycles provider0 [Inr [vm_a, prober, vm_b]]))
     \<subseteq> dom (cache (refresh_cycles provider0 ([Inr [vm_a, prober, vm_b]] @ [Inr [vm_b]])))"
  using listed_names_are_cached [where md = on_gce and proj = "''proj''" and ip = provider0
      and fetches = "[Inr [vm_a, prober, vm_b], Inr [vm_b]]" and i = "facade False None"
      and later = "[]"]
    listed_names_are_cached [where md = on_gce and proj = "''proj''" and ip = provider0
      and fetches = "[Inr [vm_a, prober, vm_b]]" and i = "facade False None"
      and later = "[Inr [vm_b]]"]
  by (simp add: provider0_initial)

text \<open>
  C1 as stated fails: after a cycle that fetched \<open>vm-a\<close> and a cycle that did not,
  \<open>vm-a\<close> is still a key of the cache and is not listed.
\<close>

theorem List_equals_cache_keys_counterexample:
  "initGlobalInstancesProvider on_gce ''proj'' None = (None, Some provider0) \<and>
   set (List (refresh_cycles provider0 [Inr [vm_a, prober, vm_b], Inr [vm_b]]) (facade False None))
     \<noteq> dom (cache (refresh_cycles provider0 [Inr [vm_a, prober, vm_b], Inr [vm_b]]))"
proof -
  have "''vm-a'' \<in> dom (cache (refresh_cycles provider0 [Inr [vm_a, prober, vm_b], Inr [vm_b]]))"
    by (simp add: refresh_cycles_def expand_def provider0_def vm_a_def vm_b_def prober_def)
  moreover have "''vm-a'' \<notin> set (List (refresh_cycles provider0
      [Inr [vm_a, prober, vm_b], Inr [vm_b]]) (facade False None))"
    by (simp add: List_def list_def refresh_cycles_def expand_def provider0_def
        vm_a_def vm_b_def prober_def)
  ultimately show ?thesis
    using provider0_initial by blast
qed

text \<open>
  C6. A refresh cycle whose fetch returns an error leaves the provider as it was: the
  state is equal to the one before, and so are the results of \<^verbatim>\<open>List\<close> and of
  \<^verbatim>\<open>Resolve\<close> for every facade, name and IP version.
\<close>

theorem failed_fetch_keeps_state:
  "expand ip (Inl err) = ip \<and>
   List (expand ip (Inl err)) i = List ip i \<and>
   Resolve ParseIP ParseCIDR (expand ip (Inl err)) i name ipVer
     = Resolve ParseIP ParseCIDR ip i name ipVer"
  by (simp add: expand_def)

theorem failed_fetch_keeps_state_witness:
  "List (expand provider1 (Inl (ExternalError ''unavailable''))) (facade False None)
     = [''vm-a'', ''vm-b''] \<and>
   Resolve ParseIPv4 ParseCIDRv4 (expand provider1 (Inl (ExternalError ''unavailable'')))
     (facade False None) ''vm-a'' 4 = Returns (Some [10, 0, 0, 5], None)"
  using failed_fetch_keeps_state [of provider1 "ExternalError ''unavailable''" "facade False None"
      ParseIPv4 ParseCIDRv4 "''vm-a''" 4]
  by (simp add: List_def list_def Resolve_def provider1_eq facade_simps vm_a_def ParseIPv4_samples)

text \<open>
  C7. After any run of refresh cycles that ends with a successful one, from any state,
  the name of this instance is not in the list that \<^verbatim>\<open>List\<close> returns, whatever the
  fetched inventories hold; and from a state whose list does not hold it, such as the
  initial one, no run of refresh cycles, successful or failed, brings it in.
\<close>

theorem self_never_listed:
  "thisInstance ip \<notin> set (List (refresh_cycles ip (fetches @ [Inr computeInstances])) i) \<and>
   (thisInstance ip \<notin> set (names ip) \<longrightarrow>
      thisInstance ip \<notin> set (List (refresh_cycles ip fetches) i))"
proof -
  have "refresh_cycles ip (fetches @ [Inr computeInstances])
          = expand (refresh_cycles ip fetches) (Inr computeInstances)"
    by (simp add: refresh_cycles_def)
  then have "names (refresh_cycles ip (fetches @ [Inr computeInstances]))
          = filter (\<lambda>n. n \<noteq> thisInstance ip) (map Name computeInstances)"
    by (simp add: names_expand_Inr thisInstance_refresh_cycles)
  then show ?thesis
    by (simp add: List_def list_def self_unlisted_refresh_cycles)
qed

theorem self_never_listed_witness:
  "Name prober = thisInstance provider0 \<and> thisInstance provider0 \<notin> set (names provider0) \<and>
   thisInstance provider0 \<notin> set (List (refresh_cycles provider0
      ([Inr [prober, vm_a], Inl (ExternalError ''unavailable'')] @ [Inr [vm_a, prober, vm_b]]))
      (facade False None)) \<and>
   thisInstance provider0 \<notin> set (List (refresh_cycles provider0
      [Inr [prober, vm_a], Inl (ExternalError ''unavailable'')]) (facade False None))"
  using self_never_listed [of provider0 "[Inr [prober, vm_a], Inl (ExternalError ''unavailable'')]"
      "[vm_a, prober, vm_b]" "facade False None"]
  by (simp add: provider0_def prober_def)

section \<open>Construction of the facade\<close>

text \<open>
  C5. When the initialisation of the global provider succeeds, \<^verbatim>\<open>newInstances\<close>
  returns an error exactly when the configuration has both a network interface and DNS
  resolution, or has DNS resolution while the resolver passed in is nil; in every other
  case it returns the facade holding the configuration and the resolver.
\<close>

theorem newInstances_fails_iff:
  assumes "fst (initGlobalInstancesProvider md proj g) = None"
  shows "((\<exists>err. fst (newInstances md proj ipb globalResolver g) = Inl err) \<longleftrightarrow>
            (GetNetworkInterface ipb \<noteq> None \<and> GetUseDnsToResolve ipb) \<or>
            (GetUseDnsToResolve ipb \<and> globalResolver = None)) \<and>
         ((\<exists>err. fst (newInstances md proj ipb globalResolver g) = Inl err) \<or>
            fst (newInstances md proj ipb globalResolver g) = Inr \<lparr>pb = ipb, r = globalResolver\<rparr>)"
  using assms by (auto simp: newInstances_def Option.is_none_def split: prod.splits option.splits)

theorem newInstances_fails_iff_witness:
  "fst (initGlobalInstancesProvider on_gce ''proj'' None) = None \<and>
   fst (newInstances on_gce ''proj''
      (Some \<lparr>UseDnsToResolve = Some True,
             NetworkInterface = netintf 0 Instances_NetworkInterface_PRIVATE\<rparr>)
      (Some (\<lambda>name ipVer. (None, None))) None) = Inl ErrMutuallyExclusive \<and>
   fst (newInstances on_gce ''proj''
      (Some \<lparr>UseDnsToResolve = Some True, NetworkInterface = None\<rparr>) None None)
     = Inl ErrGlobalResolverNil \<and>
   fst (newInstances on_gce ''proj''
      (pb (facade False (netintf 1 Instances_NetworkInterface_PUBLIC))) None None)
     = Inr (facade False (netintf 1 Instances_NetworkInterface_PUBLIC))"
  using newInstances_fails_iff [of on_gce "''proj''" None
      "pb (facade False (netintf 1 Instances_NetworkInterface_PUBLIC))" None]
  by (simp add: newInstances_def initGlobalInstancesProvider_def on_gce_def facade_def netintf_def
      GetNetworkInterface_def GetUseDnsToResolve_def Option.is_none_def)

section \<open>Resolution from the cache\<close>

text \<open>
  C3. For a facade that does not resolve through DNS, whatever its interface index and
  addressing mode, resolving a name that the cache does not hold returns no IP and the
  error that the instance is not in the in-memory database.
\<close>

theorem Resolve_absent_name:
  assumes "\<not> GetUseDnsToResolve (pb i)" and "get gp name = None"
  shows "Resolve ParseIP ParseCIDR gp i name ipVer = Returns (None, Some (ErrNotInDatabase name))"
  using assms by (simp add: Resolve_def)

theorem Resolve_absent_name_witness:
  "\<not> GetUseDnsToResolve (pb (facade False (netintf 3 Instances_NetworkInterface_PUBLIC))) \<and>
   get provider1 ''prober'' = None \<and>
   Resolve ParseIPv4 ParseCIDRv4 provider1
     (facade False (netintf 3 Instances_NetworkInterface_PUBLIC)) ''prober'' 4
     = Returns (None, Some (ErrNotInDatabase ''prober''))"
  using Resolve_absent_name [where i = "facade False (netintf 3 Instances_NetworkInterface_PUBLIC)"
      and gp = provider1 and name = "''prober''" and ParseIP = ParseIPv4
      and ParseCIDR = ParseCIDRv4 and ipVer = 4]
  by (simp add: facade_simps provider1_eq)

text \<open>
  C8. For a cached record and a facade that does not resolve through DNS: when no network
  interface is configured, \<^verbatim>\<open>Resolve\<close> reads the interface at index 0 in PRIVATE mode,
  returning what \<^verbatim>\<open>net.ParseIP\<close> makes of its private address with a nil error, or
  the missing-interface error for index 0 when the record has no interface. In PRIVATE
  mode at any configured index the result is the parsed private address of the selected
  interface with a nil error, unless no interface exists at that index.
\<close>

theorem Resolve_default_PRIVATE:
  assumes "\<not> GetUseDnsToResolve (pb i)" and "get gp name = Some ins"
  shows "(GetNetworkInterface (pb i) = None \<longrightarrow>
            Resolve ParseIP ParseCIDR gp i name ipVer =
              (case NetworkInterfaces ins of
                 [] \<Rightarrow> Returns (None, Some (ErrNoNetworkInterface name 0))
               | intf # rest \<Rightarrow> Returns (ParseIP (NetworkIP intf), None))) \<and>
         (ipType i = Instances_NetworkInterface_PRIVATE \<longrightarrow>
            Resolve ParseIP ParseCIDR gp i name ipVer =
              (if int (length (NetworkInterfaces ins)) \<le> niIndex i
               then Returns (None, Some (ErrNoNetworkInterface name (niIndex i)))
               else if niIndex i < 0
               then Panics (IndexOutOfRange (niIndex i) (length (NetworkInterfaces ins)))
               else Returns (ParseIP (NetworkIP (NetworkInterfaces ins ! nat (niIndex i))), None)))"
  using assms by (auto simp: Resolve_def niIndex_def ipType_def split: list.splits)

theorem Resolve_default_PRIVATE_witness:
  "GetNetworkInterface (pb (facade False None)) = None \<and>
   Resolve ParseIPv4 ParseCIDRv4 provider1 (facade False None) ''vm-a'' 4
     = Returns (Some [10, 0, 0, 5], None) \<and>
   Resolve ParseIPv4 ParseCIDRv4 provider1
     (facade False (netintf 1 Instances_NetworkInterface_PRIVATE)) ''vm-b'' 4
     = Returns (Some [10, 0, 1, 7], None)"
  using Resolve_default_PRIVATE [where i = "facade False None" and gp = provider1
      and name = "''vm-a''" and ins = vm_a and ParseIP = ParseIPv4 and ParseCIDR = ParseCIDRv4
      and ipVer = 4]
    Resolve_default_PRIVATE [where i = "facade False (netintf 1 Instances_NetworkInterface_PRIVATE)"
      and gp = provider1 and name = "''vm-b''" and ins = vm_b and ParseIP = ParseIPv4
      and ParseCIDR = ParseCIDRv4 and ipVer = 4]
  by (simp add: facade_simps provider1_eq vm_a_def vm_b_def ParseIPv4_samples)

text \<open>
  C4. For a cached record and a facade whose configured network interface has mode PUBLIC
  and an index at which the record has an interface, \<^verbatim>\<open>Resolve\<close> reads the
  interface at the configured index: it returns the no-access-config error when that
  interface has no access config, and otherwise what \<^verbatim>\<open>net.ParseIP\<close> makes of its
  first access config's NAT address, with a nil error.
\<close>

theorem Resolve_PUBLIC:
  assumes "\<not> GetUseDnsToResolve (pb i)" and "get gp name = Some ins"
    and "GetNetworkInterface (pb i) = Some ni"
    and "GetIpType (Some ni) = Instances_NetworkInterface_PUBLIC"
    and "0 \<le> GetIndex (Some ni)"
    and "GetIndex (Some ni) < int (length (NetworkInterfaces ins))"
  shows "Resolve ParseIP ParseCIDR gp i name ipVer =
     (case AccessConfigs (NetworkInterfaces ins ! nat (GetIndex (Some ni))) of
        [] \<Rightarrow> Returns (None, Some (ErrNoAccessConfig name))
      | ac # acs \<Rightarrow> Returns (ParseIP (NatIP ac), None))"
  using assms by (simp add: Resolve_def niIndex_def ipType_def)

text \<open>
  At configured index 0: \<open>vm-a\<close> has the NAT address 34.1.2.3, \<open>vm-b\<close> has no
  access config. At configured index 1: \<open>vm-c\<close>, whose interface 0 has no access
  config, resolves to the first of the two NAT addresses of its interface 1, and
  \<open>vm-d\<close>, whose interface 0 has a NAT address, has no access config on interface 1.
\<close>

theorem Resolve_PUBLIC_witness:
  "Resolve ParseIPv4 ParseCIDRv4 provider1
     (facade False (netintf 0 Instances_NetworkInterface_PUBLIC)) ''vm-a'' 4
     = Returns (Some [34, 1, 2, 3], None) \<and>
   Resolve ParseIPv4 ParseCIDRv4 provider1
     (facade False (netintf 0 Instances_NetworkInterface_PUBLIC)) ''vm-b'' 4
     = Returns (None, Some (ErrNoAccessConfig ''vm-b'')) \<and>
   Resolve ParseIPv4 ParseCIDRv4 provider2
     (facade False (netintf 1 Instances_NetworkInterface_PUBLIC)) ''vm-c'' 4
     = Returns (Some [34, 1, 2, 3], None) \<and>
   Resolve ParseIPv4 ParseCIDRv4 provider2
     (facade False (netintf 1 Instances_NetworkInterface_PUBLIC)) ''vm-d'' 4
     = Returns (None, Some (ErrNoAccessConfig ''vm-d''))"
  using Resolve_PUBLIC [where i = "facade False (netintf 0 Instances_NetworkInterface_PUBLIC)"
      and ni = "\<lparr>Index = Some 0, IpType = Some Instances_NetworkInterface_PUBLIC\<rparr>"
      and gp = provider1 and name = "''vm-a''" and ins = vm_a and ParseIP = ParseIPv4
      and ParseCIDR = ParseCIDRv4 and ipVer = 4]
    Resolve_PUBLIC [where i = "facade False (netintf 0 Instances_NetworkInterface_PUBLIC)"
      and ni = "\<lparr>Index = Some 0, IpType = Some Instances_NetworkInterface_PUBLIC\<rparr>"
      and gp = provider1 and name = "''vm-b''" and ins = vm_b and ParseIP = ParseIPv4
      and ParseCIDR = ParseCIDRv4 and ipVer = 4]
    Resolve_PUBLIC [where i = "facade False (netintf 1 Instances_NetworkInterface_PUBLIC)"
      and ni = "\<lparr>Index = Some 1, IpType = Some Instances_NetworkInterface_PUBLIC\<rparr>"
      and gp = provider2 and name = "''vm-c''" and ins = vm_c and ParseIP = ParseIPv4
      and ParseCIDR = ParseCIDRv4 and ipVer = 4]
    Resolve_PUBLIC [where i = "facade False (netintf 1 Instances_NetworkInterface_PUBLIC)"
      and ni = "\<lparr>Index = Some 1, IpType = Some Instances_NetworkInterface_PUBLIC\<rparr>"
      and gp = provider2 and name = "''vm-d''" and ins = vm_d and ParseIP = ParseIPv4
      and ParseCIDR = ParseCIDRv4 and ipVer = 4]
  by (simp add: facade_simps netintf_def netintf_config provider1_eq provider2_eq
      vm_a_def vm_b_def vm_c_def vm_d_def ParseIPv4_samples)

text \<open>
  C9. For a cached record and a configured interface index below zero, \<^verbatim>\<open>Resolve\<close>
  does not return the no-network-interface error: the guard compares the length with
  the index, which a negative index passes, and the slice is then indexed out of range.
\<close>

theorem Resolve_negative_index:
  assumes "\<not> GetUseDnsToResolve (pb i)" and "get gp name = Some ins" and "niIndex i < 0"
  shows "Resolve ParseIP ParseCIDR gp i name ipVer
           = Panics (IndexOutOfRange (niIndex i) (length (NetworkInterfaces ins))) \<and>
         Resolve ParseIP ParseCIDR gp i name ipVer
           \<noteq> Returns (None, Some (ErrNoNetworkInterface name (niIndex i)))"
  using assms by (simp add: Resolve_def)

theorem Resolve_negative_index_witness:
  "niIndex (facade False (netintf (- 1) Instances_NetworkInterface_PRIVATE)) < 0 \<and>
   Resolve ParseIPv4 ParseCIDRv4 provider1
     (facade False (netintf (- 1) Instances_NetworkInterface_PRIVATE)) ''vm-a'' 4
     = Panics (IndexOutOfRange (- 1) 1)"
  using Resolve_negative_index [where i = "facade False (netintf (- 1) Instances_NetworkInterface_PRIVATE)"
      and gp = provider1 and name = "''vm-a''" and ins = vm_a and ParseIP = ParseIPv4
      and ParseCIDR = ParseCIDRv4 and ipVer = 4]
  by (simp add: facade_simps provider1_eq vm_a_def)

text \<open>
  C10. For a cached record whose selected interface exists: when the private address
  (PRIVATE mode) or the first access config's NAT address (PUBLIC mode) is not a
  parseable IP literal, \<^verbatim>\<open>Resolve\<close> returns a nil IP together with a nil error.
\<close>

theorem Resolve_unparseable_address:
  assumes "\<not> GetUseDnsToResolve (pb i)" and "get gp name = Some ins"
    and "0 \<le> niIndex i" and "niIndex i < int (length (NetworkInterfaces ins))"
    and "(ipType i = Instances_NetworkInterface_PRIVATE \<and>
            ParseIP (NetworkIP (NetworkInterfaces ins ! nat (niIndex i))) = None) \<or>
         (ipType i = Instances_NetworkInterface_PUBLIC \<and>
            AccessConfigs (NetworkInterfaces ins ! nat (niIndex i)) \<noteq> [] \<and>
            ParseIP (NatIP (hd (AccessConfigs (NetworkInterfaces ins ! nat (niIndex i))))) = None)"
  shows "Resolve ParseIP ParseCIDR gp i name ipVer = Returns (None, None)"
  using assms by (auto simp: Resolve_def split: list.splits)

theorem Resolve_unparseable_address_witness:
  "ParseIPv4 ''not-an-address'' = None \<and> ParseIPv4 [] = None \<and>
   Resolve ParseIPv4 ParseCIDRv4 provider1
     (facade False (netintf 0 Instances_NetworkInterface_PRIVATE)) ''vm-b'' 4
     = Returns (None, None) \<and>
   Resolve ParseIPv4 ParseCIDRv4 provider1
     (facade False (netintf 1 Instances_NetworkInterface_PUBLIC)) ''vm-b'' 4
     = Returns (None, None)"
  using Resolve_unparseable_address [where i = "facade False (netintf 0 Instances_NetworkInterface_PRIVATE)"
      and gp = provider1 and name = "''vm-b''" and ins = vm_b and ParseIP = ParseIPv4
      and ParseCIDR = ParseCIDRv4 and ipVer = 4]
    Resolve_unparseable_address [where i = "facade False (netintf 1 Instances_NetworkInterface_PUBLIC)"
      and gp = provider1 and name = "''vm-b''" and ins = vm_b and ParseIP = ParseIPv4
      and ParseCIDR = ParseCIDRv4 and ipVer = 4]
  by (simp add: facade_simps provider1_eq vm_b_def ParseIPv4_samples)

text \<open>
  C2, as amended. For a cached record whose selected interface has at least one alias
  range, ALIAS mode takes the first range's string: when it parses as a bare IP address,
  that address is returned; else the string is parsed as a CIDR and the address that the
  CIDR parser returns, the one written before the slash, is returned, the network being
  discarded; when the CIDR parse fails too, a nil IP and the CIDR parser's error are
  returned.
\<close>

theorem Resolve_ALIAS:
  assumes "\<not> GetUseDnsToResolve (pb i)" and "get gp name = Some ins"
    and "ipType i = Instances_NetworkInterface_ALIAS"
    and "0 \<le> niIndex i" and "niIndex i < int (length (NetworkInterfaces ins))"
    and "AliasIpRanges (NetworkInterfaces ins ! nat (niIndex i)) = ar # ars"
  shows "Resolve ParseIP ParseCIDR gp i name ipVer =
     (case ParseIP (IpCidrRange ar) of
        Some ip \<Rightarrow> Returns (Some ip, None)
      | None \<Rightarrow>
          (case ParseCIDR (IpCidrRange ar) of
             Inl err \<Rightarrow> Returns (None, Some err)
           | Inr (ip, ipnet) \<Rightarrow> Returns (Some ip, None)))"
  using assms by (simp add: Resolve_def)

text \<open>
  The canonical range \<open>10.1.2.0/24\<close> gives 10.1.2.0, the bare address \<open>10.1.2.9\<close>
  gives itself, and the range \<open>10.1.2.9/24\<close> gives 10.1.2.9.
\<close>

theorem Resolve_ALIAS_witness:
  "Resolve ParseIPv4 ParseCIDRv4 provider1
     (facade False (netintf 0 Instances_NetworkInterface_ALIAS)) ''vm-b'' 4
     = Returns (Some [10, 1, 2, 0], None) \<and>
   Resolve ParseIPv4 ParseCIDRv4 provider1
     (facade False (netintf 1 Instances_NetworkInterface_ALIAS)) ''vm-b'' 4
     = Returns (Some [10, 1, 2, 9], None) \<and>
   Resolve ParseIPv4 ParseCIDRv4 provider1
     (facade False (netintf 0 Instances_NetworkInterface_ALIAS)) ''vm-a'' 4
     = Returns (Some [10, 1, 2, 9], None)"
  using Resolve_ALIAS [where i = "facade False (netintf 0 Instances_NetworkInterface_ALIAS)"
      and gp = provider1 and name = "''vm-b''" and ins = vm_b
      and ar = "\<lparr>IpCidrRange = ''10.1.2.0/24''\<rparr>" and ars = "[]"
      and ParseIP = ParseIPv4 and ParseCIDR = ParseCIDRv4 and ipVer = 4]
    Resolve_ALIAS [where i = "facade False (netintf 1 Instances_NetworkInterface_ALIAS)"
      and gp = provider1 and name = "''vm-b''" and ins = vm_b
      and ar = "\<lparr>IpCidrRange = ''10.1.2.9''\<rparr>" and ars = "[]"
      and ParseIP = ParseIPv4 and ParseCIDR = ParseCIDRv4 and ipVer = 4]
    Resolve_ALIAS [where i = "facade False (netintf 0 Instances_NetworkInterface_ALIAS)"
      and gp = provider1 and name = "''vm-a''" and ins = vm_a
      and ar = "\<lparr>IpCidrRange = ''10.1.2.9/24''\<rparr>" and ars = "[]"
      and ParseIP = ParseIPv4 and ParseCIDR = ParseCIDRv4 and ipVer = 4]
  by (simp add: facade_simps provider1_eq vm_a_def vm_b_def ParseIPv4_samples ParseCIDRv4_samples)

text \<open>
  C2 as stated fails: for the alias range \<open>10.1.2.9/24\<close> the network address is
  10.1.2.0, and \<^verbatim>\<open>Resolve\<close> returns 10.1.2.9.
\<close>

theorem Resolve_ALIAS_network_address_counterexample:
  "Resolve ParseIPv4 ParseCIDRv4 provider1
     (facade False (netintf 0 Instances_NetworkInterface_ALIAS)) ''vm-a'' 4
     = Returns (Some [10, 1, 2, 9], None) \<and>
   alias_rule_spec ParseIPv4 ParseCIDRv4 ''10.1.2.9/24'' = (Some [10, 1, 2, 0], None) \<and>
   Resolve ParseIPv4 ParseCIDRv4 provider1
     (facade False (netintf 0 Instances_NetworkInterface_ALIAS)) ''vm-a'' 4
   \<noteq> Returns (alias_rule_spec ParseIPv4 ParseCIDRv4
        (IpCidrRange (hd (AliasIpRanges (hd (NetworkInterfaces vm_a))))))"
  by (simp add: Resolve_def facade_simps provider1_eq vm_a_def alias_rule_spec_def
      ParseIPv4_samples ParseCIDRv4_samples)

end
